theory Spec2Isabelle
  imports Complex_Main
begin

section \<open>The store-layout API: resolvers of the QuicKart server\<close>

text \<open>
  The repository holds two versions of the GraphQL server: \<open>src/model/items/index.js\<close>
  and an unnamed, older copy (\<open>part_000\<close>). Both define a schema and a resolver map
  over a MongoDB database with the collections \<open>Item\<close>, \<open>Aisles\<close>, \<open>Checkout\<close>,
  \<open>Map\<close> and \<open>Inventory\<close>. The resolvers are embedded as functions on an explicit
  database state; a thrown exception is a value of type \<open>error\<close>.
\<close>

subsection \<open>Errors\<close>

text \<open>
  \<open>Error msg\<close> is \<open>throw new Error(msg)\<close> with the message of the source.
  \<open>TypeError p\<close> is the engine's exception for reading property \<open>p\<close> of \<open>null\<close>,
  \<open>ReferenceError x\<close> the one for evaluating an identifier \<open>x\<close> that no scope binds.
\<close>

datatype error = Error string | TypeError string | ReferenceError string

subsection \<open>Documents and the database\<close>

text \<open>
  Every stored document carries the identifier \<open>_id\<close> that the driver assigns on
  insert (field \<open>oid\<close>; \<open>None\<close> on an object literal that has not been inserted yet).
  Object identifiers are modelled as natural numbers drawn from a counter of the database.
  Coordinates are GraphQL \<open>Int\<close>s; the bay bounds are JavaScript numbers that result from
  a division, modelled as rationals.
\<close>

type_synonym ObjectID = nat

record Stored =
  oid :: "ObjectID option"

record Region = Stored +
  xStartVal :: int
  xEndVal :: int
  yStartVal :: int
  yEndVal :: int

record Aisle = Region +
  number :: int
  name :: string
  bays :: "rat list list"

record Checkout = Region +
  lane :: int

record Item = Stored +
  item_name :: string
  item_aisle :: string
  item_bay :: string
  price :: rat
  xVal :: int
  yVal :: int

record StoreMap = Stored +
  title :: string
  description :: string
  width :: int
  map_length :: int
  aisle :: "Aisle list"
  checkout :: "Checkout list"

record Inventory = Stored +
  inv_id :: int
  inv_title :: string
  items :: "Item list"

record Db =
  Item :: "Item list"
  Aisles :: "Aisle list"
  Checkout :: "Checkout list"
  Map :: "StoreMap list"
  Inventory :: "Inventory list"
  next_oid :: ObjectID

definition empty_db :: Db where
  "empty_db = \<lparr>Item = [], Aisles = [], Checkout = [], Map = [], Inventory = [], next_oid = 0\<rparr>"

text \<open>
  \<open>db.collection(c).insert(doc)\<close>: the driver sets \<open>doc._id\<close> to a fresh identifier,
  appends the document to the collection and reports it as \<open>result.ops[0]\<close>.
\<close>

definition insert_Item :: "Item \<Rightarrow> Db \<Rightarrow> Item \<times> Db" where
  "insert_Item doc db =
     (let saved = doc\<lparr>oid := Some (next_oid db)\<rparr>
      in (saved, db\<lparr>Item := Item db @ [saved], next_oid := Suc (next_oid db)\<rparr>))"

definition insert_Aisles :: "Aisle \<Rightarrow> Db \<Rightarrow> Aisle \<times> Db" where
  "insert_Aisles doc db =
     (let saved = doc\<lparr>oid := Some (next_oid db)\<rparr>
      in (saved, db\<lparr>Aisles := Aisles db @ [saved], next_oid := Suc (next_oid db)\<rparr>))"

definition insert_Checkout :: "Checkout \<Rightarrow> Db \<Rightarrow> Checkout \<times> Db" where
  "insert_Checkout doc db =
     (let saved = doc\<lparr>oid := Some (next_oid db)\<rparr>
      in (saved, db\<lparr>Checkout := Checkout db @ [saved], next_oid := Suc (next_oid db)\<rparr>))"

definition insert_Map :: "StoreMap \<Rightarrow> Db \<Rightarrow> StoreMap \<times> Db" where
  "insert_Map doc db =
     (let saved = doc\<lparr>oid := Some (next_oid db)\<rparr>
      in (saved, db\<lparr>Map := Map db @ [saved], next_oid := Suc (next_oid db)\<rparr>))"

definition insert_Inventory :: "Inventory \<Rightarrow> Db \<Rightarrow> Inventory \<times> Db" where
  "insert_Inventory doc db =
     (let saved = doc\<lparr>oid := Some (next_oid db)\<rparr>
      in (saved, db\<lparr>Inventory := Inventory db @ [saved], next_oid := Suc (next_oid db)\<rparr>))"

subsection \<open>Identifiers that no scope of the file binds\<close>

text \<open>
  \<open>getAllMapCoords\<close> reads the identifiers \<open>width\<close> and \<open>length\<close>, and \<open>createItem\<close>
  (in \<open>part_000\<close>) reads \<open>newAisle\<close>; none of them is a parameter, a local or a
  module-level declaration, and nothing in the file assigns to them. Their lookup
  therefore falls through to the global object, which is a parameter of the model;
  \<open>no_globals\<close> is the global object the server runs with.
\<close>

record Globals =
  global_width :: "int option"
  global_length :: "int option"
  global_newAisle :: "Aisle option"

definition no_globals :: Globals where
  "no_globals = \<lparr>global_width = None, global_length = None, global_newAisle = None\<rparr>"

definition ident :: "string \<Rightarrow> 'a option \<Rightarrow> error + 'a" where
  "ident x binding = (case binding of None \<Rightarrow> Inl (ReferenceError x) | Some v \<Rightarrow> Inr v)"

subsection \<open>Loops\<close>

text \<open>
  \<open>for (let i = 0; i <= n; i++) body\<close>, with a body that updates local state.
\<close>

function for_le :: "int \<Rightarrow> int \<Rightarrow> (int \<Rightarrow> 's \<Rightarrow> 's) \<Rightarrow> 's \<Rightarrow> 's" where
  "for_le i n body s = (if i \<le> n then for_le (i + 1) n body (body i s) else s)"
  by pat_completeness auto
termination
  by (relation "measure (\<lambda>(i, n, body, s). nat (n + 1 - i))") auto

text \<open>
  \<open>for (let x = 0; x < bound; x++) body\<close>, where evaluating the identifier \<open>bound\<close>
  in the loop test may throw, and so may the body.
\<close>

function for_lt :: "int \<Rightarrow> (error + int) \<Rightarrow> (int \<Rightarrow> 's \<Rightarrow> error + 's) \<Rightarrow> 's \<Rightarrow> error + 's" where
  "for_lt x bound body s =
     (case bound of
        Inl e \<Rightarrow> Inl e
      | Inr n \<Rightarrow>
          if x < n then
            (case body x s of Inl e \<Rightarrow> Inl e | Inr s' \<Rightarrow> for_lt (x + 1) bound body s')
          else Inr s)"
  by pat_completeness auto
termination
  by (relation "measure (\<lambda>(x, bound, body, s). case bound of Inl e \<Rightarrow> 0 | Inr n \<Rightarrow> nat (n - x))") auto

text \<open>
  \<open>xs.forEach(f)\<close> with a callback that may throw: the first exception ends the loop.
\<close>

fun forEach :: "('a \<Rightarrow> error + unit) \<Rightarrow> 'a list \<Rightarrow> error + unit" where
  "forEach f [] = Inr ()"
| "forEach f (x # xs) = (case f x of Inl e \<Rightarrow> Inl e | Inr u \<Rightarrow> forEach f xs)"

subsection \<open>Queries\<close>

text \<open>
  \<open>getInventory\<close>: \<open>findOne({id: id})\<close> yields the first matching document or \<open>null\<close>;
  reading \<open>inventory.items\<close> of \<open>null\<close> throws.
\<close>

definition getInventory :: "int \<Rightarrow> Db \<Rightarrow> error + Item list" where
  "getInventory = (\<lambda>id db.
     case find (\<lambda>inv. inv_id inv = id) (Inventory db) of
       None \<Rightarrow> Inl (TypeError ''items'')
     | Some inventory \<Rightarrow> Inr (items inventory))"

definition getItem :: "ObjectID \<Rightarrow> Db \<Rightarrow> Item option" where
  "getItem = (\<lambda>id db. find (\<lambda>d. oid d = Some id) (Item db))"

definition getAisle :: "ObjectID \<Rightarrow> Db \<Rightarrow> Aisle option" where
  "getAisle = (\<lambda>id db. find (\<lambda>d. oid d = Some id) (Aisles db))"

definition getMap :: "ObjectID \<Rightarrow> Db \<Rightarrow> StoreMap option" where
  "getMap = (\<lambda>id db. find (\<lambda>d. oid d = Some id) (Map db))"

text \<open>
  \<open>getAllMapCoords\<close> (the same text in both files): the document found is only tested
  for existence and is not bound to a name; the loop bounds are the free identifiers
  \<open>width\<close> and \<open>length\<close>.
\<close>

definition getAllMapCoords :: "Globals \<Rightarrow> ObjectID \<Rightarrow> Db \<Rightarrow> error + int list list" where
  "getAllMapCoords = (\<lambda>globals id db.
     if find (\<lambda>d. oid d = Some id) (Map db) = None then Inl (Error ''Map not found'')
     else
       for_lt 0 (ident ''width'' (global_width globals))
         (\<lambda>x data.
            for_lt 0 (ident ''length'' (global_length globals))
              (\<lambda>y data. Inr (data @ [[x, y]])) data)
         [])"

subsection \<open>Mutations\<close>

definition createInventory :: "int \<Rightarrow> string \<Rightarrow> Db \<Rightarrow> Inventory \<times> Db" where
  "createInventory = (\<lambda>id title db.
     let currItems = Item db;
         newInventory = \<lparr>oid = None, inv_id = id, inv_title = title, items = currItems\<rparr>
     in insert_Inventory newInventory db)"

text \<open>
  \<open>createAisle\<close> of \<open>index.js\<close>. The value of the local \<open>bayCoordinates\<close> when the
  \<open>if\<close> statement has run is given by \<open>bayCoordinates\<close> below: the loop of the branch
  \<open>width > length\<close> fills it, the \<open>else\<close> branch leaves it empty. The division \<open>width/3\<close>
  is the division of JavaScript numbers; on rationals it is exact, which agrees with
  the program whenever \<open>width\<close> is a multiple of 3.
\<close>

definition bayCoordinates :: "int \<Rightarrow> int \<Rightarrow> int \<Rightarrow> int \<Rightarrow> rat list list" where
  "bayCoordinates = (\<lambda>xStartVal xEndVal yStartVal yEndVal.
     let width = (xEndVal - xStartVal) + 1;
         length = (yEndVal - yStartVal) + 1;
         horizonBayLength = (of_int width :: rat) / 3;
         vertBayLength = (of_int length :: rat) / 3
     in if width > length then
          for_le 0 width
            (\<lambda>i bayCoordinates.
               if of_int i = horizonBayLength then
                 (let horizonFirstBayEnd = xStartVal + (i - 1)
                  in bayCoordinates @ [[of_int xStartVal, of_int horizonFirstBayEnd]])
               else if of_int i = horizonBayLength * 2 then
                 (let horizonSecondBay = of_int xStartVal + horizonBayLength;
                      horizonSecondBayEnd = xStartVal + (i - 1)
                  in bayCoordinates @ [[horizonSecondBay, of_int horizonSecondBayEnd]])
               else if of_int i = horizonBayLength * 3 then
                 (let horizonThirdBay = of_int xStartVal + horizonBayLength * 2;
                      horizonThirdBayEnd = xEndVal
                  in bayCoordinates @ [[horizonThirdBay, of_int horizonThirdBayEnd]])
               else bayCoordinates)
            []
        else [])"

text \<open>
  The closing brace of the \<open>else\<close> block stands after \<open>return result.ops[0]\<close>: the
  document is built, inserted and returned inside the \<open>else\<close> branch only. When
  \<open>width > length\<close> the function ends after the loop and returns \<open>undefined\<close>
  (\<open>None\<close>).
\<close>

definition createAisle :: "int \<Rightarrow> string \<Rightarrow> int \<Rightarrow> int \<Rightarrow> int \<Rightarrow> int \<Rightarrow> Db \<Rightarrow> Aisle option \<times> Db" where
  "createAisle = (\<lambda>number name xStartVal xEndVal yStartVal yEndVal db.
     let width = (xEndVal - xStartVal) + 1;
         length = (yEndVal - yStartVal) + 1
     in if width > length then (None, db)
        else
          (let newAisle = \<lparr>oid = None, xStartVal = xStartVal, xEndVal = xEndVal,
                   yStartVal = yStartVal, yEndVal = yEndVal, number = number, name = name,
                   bays = bayCoordinates xStartVal xEndVal yStartVal yEndVal\<rparr>;
               (doc, db') = insert_Aisles newAisle db
           in (Some doc, db')))"

definition createCheckout :: "int \<Rightarrow> int \<Rightarrow> int \<Rightarrow> int \<Rightarrow> int \<Rightarrow> Db \<Rightarrow> Checkout \<times> Db" where
  "createCheckout = (\<lambda>lane xStartVal xEndVal yStartVal yEndVal db.
     let newLane = \<lparr>oid = None, xStartVal = xStartVal, xEndVal = xEndVal,
             yStartVal = yStartVal, yEndVal = yEndVal, lane = lane\<rparr>
     in insert_Checkout newLane db)"

text \<open>
  \<open>createItem\<close> exists in \<open>part_000\<close> only (\<open>index.js\<close> declares the mutation in its
  schema and has no resolver for it). Its body is
  \<open>db.collection('Aisles').insert(newAisle)\<close>: the six arguments are not used.
\<close>

definition createItem ::
  "string \<Rightarrow> string \<Rightarrow> string \<Rightarrow> rat \<Rightarrow> int \<Rightarrow> int \<Rightarrow> Globals \<Rightarrow> Db \<Rightarrow> (error + Aisle) \<times> Db" where
  "createItem = (\<lambda>name aisle bay price xVal yVal globals db.
     case ident ''newAisle'' (global_newAisle globals) of
       Inl e \<Rightarrow> (Inl e, db)
     | Inr newAisle \<Rightarrow> (let (doc, db') = insert_Aisles newAisle db in (Inr doc, db')))"

text \<open>\<open>createMap\<close> (the same text in both files).\<close>

definition validateRange :: "int \<Rightarrow> int \<Rightarrow> int \<Rightarrow> int \<Rightarrow> bool" where
  "validateRange = (\<lambda>x y min max. x \<ge> min \<and> y \<le> max)"

definition createMap :: "string \<Rightarrow> string \<Rightarrow> int \<Rightarrow> int \<Rightarrow> Db \<Rightarrow> (error + StoreMap) \<times> Db" where
  "createMap = (\<lambda>title description width length db.
     if find (\<lambda>m. StoreMap.title m = title) (Map db) \<noteq> None then
       (Inl (Error ''Map already exists''), db)
     else if \<not> (width > 0 \<and> length > 0) then
       (Inl (Error ''Invalid map dimensions. Must have an area of at least 1 unit''), db)
     else
       (let aisles = Aisles db;
            checkoutLanes = Checkout db
        in case forEach (\<lambda>aisle.
                  if \<not> (validateRange (xStartVal aisle) (xEndVal aisle) 0 width
                        \<and> validateRange (yStartVal aisle) (yEndVal aisle) 0 length)
                  then Inl (Error ''Aisle dimensions exceed map dimensions'')
                  else Inr ()) aisles of
             Inl e \<Rightarrow> (Inl e, db)
           | Inr u \<Rightarrow>
               (case forEach (\<lambda>cLane.
                    if \<not> (validateRange (xStartVal cLane) (xEndVal cLane) 0 width
                          \<and> validateRange (yStartVal cLane) (yEndVal cLane) 0 length)
                    then Inl (Error ''Checkout lane dimensions exceed map dimensions'')
                    else Inr ()) checkoutLanes of
                  Inl e \<Rightarrow> (Inl e, db)
                | Inr u \<Rightarrow>
                    (let newMap = \<lparr>oid = None, title = title, description = description,
                             width = width, map_length = length,
                             aisle = aisles, checkout = checkoutLanes\<rparr>;
                         (doc, db') = insert_Map newMap db
                     in (Inr doc, db')))))"

subsection \<open>The public \<open>id\<close> field\<close>

text \<open>
  The resolver map of \<open>index.js\<close> gives the types \<open>Aisle\<close>, \<open>Item\<close> and \<open>StoreMap\<close> the
  field resolver \<open>id: ({ _id, id }) => _id || id\<close>; an object identifier is an object
  and therefore truthy. \<open>Inventory\<close> and \<open>Checkout\<close> have no entry: GraphQL's default
  field resolver then reads the property \<open>id\<close> of the document.
\<close>

datatype idval = OID ObjectID | IntId int

datatype typename = TItem | TAisle | TStoreMap | TCheckout | TInventory

definition shape_id :: "ObjectID option \<Rightarrow> idval option \<Rightarrow> idval option" where
  "shape_id = (\<lambda>oid_field id_field.
     case oid_field of Some k \<Rightarrow> Some (OID k) | None \<Rightarrow> id_field)"

definition id_resolver :: "typename \<Rightarrow> (ObjectID option \<Rightarrow> idval option \<Rightarrow> idval option) option" where
  "id_resolver t =
     (case t of
        TAisle \<Rightarrow> Some shape_id
      | TItem \<Rightarrow> Some shape_id
      | TStoreMap \<Rightarrow> Some shape_id
      | TCheckout \<Rightarrow> None
      | TInventory \<Rightarrow> None)"

definition public_id :: "typename \<Rightarrow> ObjectID option \<Rightarrow> idval option \<Rightarrow> idval option" where
  "public_id t oid_field id_field =
     (case id_resolver t of
        Some resolve \<Rightarrow> resolve oid_field id_field
      | None \<Rightarrow> id_field)"

definition public_id_of_Inventory :: "Inventory \<Rightarrow> idval option" where
  "public_id_of_Inventory doc = public_id TInventory (oid doc) (Some (IntId (inv_id doc)))"

subsection \<open>Auxiliary definitions for the proofs\<close>

text \<open>
  The body of the loop of \<open>createAisle\<close> when \<open>width = 3 * b\<close>, with its three tests
  decided on integers (\<open>bayCoordinates_multiple_of_3\<close> proves that it is the body of
  the definition above).
\<close>

definition bay_step :: "int \<Rightarrow> int \<Rightarrow> int \<Rightarrow> int \<Rightarrow> rat list list \<Rightarrow> rat list list" where
  "bay_step xs xe b i acc =
     (if i = b then acc @ [[of_int xs, of_int (xs + (i - 1))]]
      else if i = 2 * b then acc @ [[of_int (xs + b), of_int (xs + (i - 1))]]
      else if i = 3 * b then acc @ [[of_int (xs + 2 * b), of_int xe]]
      else acc)"

text \<open>
  The range check in the words of the specification: on both axes the start is at
  least 0 and the end is at most the map's dimension. \<open>validateRange_both_axes\<close>
  proves that the test of \<open>createMap\<close> is this predicate.
\<close>

definition within_map :: "int \<Rightarrow> int \<Rightarrow> 'a Region_scheme \<Rightarrow> bool" where
  "within_map w l r = (xStartVal r \<ge> 0 \<and> xEndVal r \<le> w \<and> yStartVal r \<ge> 0 \<and> yEndVal r \<le> l)"

text \<open>
  Freshness of the driver's identifiers: every identifier in a collection was drawn
  from the counter before its present value.
\<close>

definition oids_below :: "ObjectID \<Rightarrow> 'a Stored_scheme list \<Rightarrow> bool" where
  "oids_below n docs = list_all (\<lambda>d. case oid d of None \<Rightarrow> True | Some k \<Rightarrow> k < n) docs"

subsection \<open>Example stores\<close>

text \<open>
  Stores built with the program's own operations, used to evaluate the resolvers at
  concrete inputs. \<open>createAisle\<close> persists only when the width does not exceed the
  length, so the example aisles are of that shape.
\<close>

definition itemA :: Item where
  "itemA = \<lparr>oid = None, item_name = ''Apples'', item_aisle = ''Produce'', item_bay = ''1'',
     price = 3 / 2, xVal = 1, yVal = 2\<rparr>"

definition itemB :: Item where
  "itemB = \<lparr>oid = None, item_name = ''Bread'', item_aisle = ''Bakery'', item_bay = ''2'',
     price = 2, xVal = 4, yVal = 2\<rparr>"

definition itemC :: Item where
  "itemC = \<lparr>oid = None, item_name = ''Cheese'', item_aisle = ''Dairy'', item_bay = ''3'',
     price = 5, xVal = 7, yVal = 2\<rparr>"

definition db_items_AB :: Db where
  "db_items_AB = snd (insert_Item itemB (snd (insert_Item itemA empty_db)))"

definition db_one_inventory :: Db where
  "db_one_inventory = snd (createInventory 1 ''weekly'' db_items_AB)"

definition db_wide_aisle :: Db where
  "db_wide_aisle = snd (createAisle 1 ''Dairy'' 0 10 0 20 empty_db)"

definition db_wide_lane :: Db where
  "db_wide_lane = snd (createCheckout 1 0 10 0 5 empty_db)"

definition db_wide_both :: Db where
  "db_wide_both = snd (createCheckout 1 0 10 0 5 db_wide_aisle)"

definition db_reversed_aisle :: Db where
  "db_reversed_aisle = snd (createAisle 7 ''Bakery'' 10 3 0 2 empty_db)"

section \<open>Properties\<close>

subsection \<open>The loops\<close>

lemma for_le_fold: "for_le i n body s = fold body [i..n] s"
proof (induction i n body s rule: for_le.induct)
  case (1 i n body s)
  show ?case
  proof (cases "i \<le> n")
    case True
    then show ?thesis using 1 by (subst for_le.simps) (simp add: upto_rec1)
  next
    case False
    then show ?thesis by (subst for_le.simps) simp
  qed
qed

lemma fold_idle: "(\<And>k. k \<in> set ks \<Longrightarrow> body k s = s) \<Longrightarrow> fold body ks s = s"
  by (induction ks) auto

lemma upto_three_points:
  assumes "0 < b"
  shows "[0..3 * b] = [0..b - 1] @ b # [b + 1..2 * b - 1] @ (2 * b) # [2 * b + 1..3 * b - 1] @ [3 * b]"
proof -
  have "[0..3 * b] = [0..b - 1] @ b # [b + 1..3 * b]"
    using assms by (intro upto_split3) auto
  also have "[b + 1..3 * b] = [b + 1..2 * b - 1] @ (2 * b) # [2 * b + 1..3 * b]"
    using assms by (intro upto_split3) auto
  also have "[2 * b + 1..3 * b] = [2 * b + 1..3 * b - 1] @ [3 * b]"
    using assms by (intro upto_rec2) auto
  finally show ?thesis by simp
qed

subsection \<open>Bays of a horizontal aisle\<close>

lemma rat_of_int_eq_twice: "((of_int i :: rat) = of_int b * 2) = (i = 2 * b)"
proof -
  have "(of_int b :: rat) * 2 = of_int (2 * b)" by simp
  then show ?thesis by (simp only: of_int_eq_iff)
qed

lemma rat_of_int_eq_thrice: "((of_int i :: rat) = of_int b * 3) = (i = 3 * b)"
proof -
  have "(of_int b :: rat) * 3 = of_int (3 * b)" by simp
  then show ?thesis by (simp only: of_int_eq_iff)
qed

lemma bayCoordinates_multiple_of_3:
  assumes w: "xe - xs + 1 = 3 * b" and wide: "3 * b > ye - ys + 1"
  shows "bayCoordinates xs xe ys ye = fold (bay_step xs xe b) [0..3 * b] []"
proof -
  have h: "(of_int (3 * b) :: rat) / 3 = of_int b" by simp
  have body: "(\<lambda>i acc.
               if (of_int i :: rat) = of_int b then acc @ [[of_int xs, of_int (xs + (i - 1))]]
               else if (of_int i :: rat) = of_int b * 2 then acc @ [[of_int xs + of_int b, of_int (xs + (i - 1))]]
               else if (of_int i :: rat) = of_int b * 3 then acc @ [[of_int xs + of_int b * 2, of_int xe]]
               else acc) = bay_step xs xe b"
    by (intro ext) (simp add: bay_step_def rat_of_int_eq_twice rat_of_int_eq_thrice)
  show ?thesis
    unfolding bayCoordinates_def Let_def w h for_le_fold
    using wide body by simp
qed

lemma fold_bay_step:
  assumes "0 < b"
  shows "fold (bay_step xs xe b) [0..3 * b] [] =
           [[of_int xs, of_int (xs + b - 1)],
            [of_int (xs + b), of_int (xs + 2 * b - 1)],
            [of_int (xs + 2 * b), of_int xe]]"
proof -
  have idle1: "fold (bay_step xs xe b) [0..b - 1] s = s" for s
    using assms by (intro fold_idle) (auto simp: bay_step_def)
  have idle2: "fold (bay_step xs xe b) [b + 1..2 * b - 1] s = s" for s
    using assms by (intro fold_idle) (auto simp: bay_step_def)
  have idle3: "fold (bay_step xs xe b) [2 * b + 1..3 * b - 1] s = s" for s
    using assms by (intro fold_idle) (auto simp: bay_step_def)
  have hit1: "bay_step xs xe b b s = s @ [[of_int xs, of_int (xs + b - 1)]]" for s
    by (simp add: bay_step_def)
  have hit2: "bay_step xs xe b (2 * b) s = s @ [[of_int (xs + b), of_int (xs + 2 * b - 1)]]" for s
    using assms by (simp add: bay_step_def)
  have hit3: "bay_step xs xe b (3 * b) s = s @ [[of_int (xs + 2 * b), of_int xe]]" for s
    using assms by (simp add: bay_step_def)
  show ?thesis
    by (simp only: upto_three_points [OF assms] fold_append fold_simps comp_apply
          idle1 idle2 idle3 hit1 hit2 hit3 append_Nil append_Cons append_assoc)
qed

text \<open>
  Claim C1, as amended. For a call of \<open>createAisle\<close> whose width
  \<open>xEndVal - xStartVal + 1\<close> exceeds its length \<open>yEndVal - yStartVal + 1\<close>, is a
  multiple of 3 and is positive, the loop computes exactly the three ranges
  \<open>[xStartVal, xStartVal + bayLen - 1]\<close>, \<open>[xStartVal + bayLen, xStartVal + 2 * bayLen - 1]\<close>
  and \<open>[xStartVal + 2 * bayLen, xEndVal]\<close> with \<open>bayLen = width / 3\<close>; as sets of integers
  they cover \<open>[xStartVal, xEndVal]\<close>, are pairwise disjoint and have \<open>bayLen\<close> elements each.
\<close>

theorem createAisle_horizontal_bays_partition:
  fixes xs xe ys ye :: int
  assumes wide: "xe - xs + 1 > ye - ys + 1"
    and div3: "3 dvd (xe - xs + 1)"
    and pos: "0 < xe - xs + 1"
  shows "let bayLen = (xe - xs + 1) div 3 in
           bayCoordinates xs xe ys ye =
             [[of_int xs, of_int (xs + bayLen - 1)],
              [of_int (xs + bayLen), of_int (xs + 2 * bayLen - 1)],
              [of_int (xs + 2 * bayLen), of_int xe]]
         \<and> {xs..xs + bayLen - 1} \<union> {xs + bayLen..xs + 2 * bayLen - 1} \<union> {xs + 2 * bayLen..xe} = {xs..xe}
         \<and> {xs..xs + bayLen - 1} \<inter> {xs + bayLen..xs + 2 * bayLen - 1} = {}
         \<and> {xs..xs + bayLen - 1} \<inter> {xs + 2 * bayLen..xe} = {}
         \<and> {xs + bayLen..xs + 2 * bayLen - 1} \<inter> {xs + 2 * bayLen..xe} = {}
         \<and> int (card {xs..xs + bayLen - 1}) = bayLen
         \<and> int (card {xs + bayLen..xs + 2 * bayLen - 1}) = bayLen
         \<and> int (card {xs + 2 * bayLen..xe}) = bayLen
         \<and> 3 * bayLen = xe - xs + 1"
proof -
  define b where "b = (xe - xs + 1) div 3"
  have w: "xe - xs + 1 = 3 * b"
    using div3 by (simp add: b_def)
  have bpos: "0 < b"
    using pos w by linarith
  have bays: "bayCoordinates xs xe ys ye =
             [[of_int xs, of_int (xs + b - 1)],
              [of_int (xs + b), of_int (xs + 2 * b - 1)],
              [of_int (xs + 2 * b), of_int xe]]"
    using bayCoordinates_multiple_of_3 [OF w] wide w fold_bay_step [OF bpos] by simp
  have xe: "xe = xs + 3 * b - 1"
    using w by linarith
  have cover: "{xs..xs + b - 1} \<union> {xs + b..xs + 2 * b - 1} \<union> {xs + 2 * b..xe} = {xs..xe}"
    using bpos xe by auto
  have apart: "{xs..xs + b - 1} \<inter> {xs + b..xs + 2 * b - 1} = {}"
      "{xs..xs + b - 1} \<inter> {xs + 2 * b..xe} = {}"
      "{xs + b..xs + 2 * b - 1} \<inter> {xs + 2 * b..xe} = {}"
    using bpos by auto
  have sizes: "int (card {xs..xs + b - 1}) = b" "int (card {xs + b..xs + 2 * b - 1}) = b"
      "int (card {xs + 2 * b..xe}) = b"
    using bpos xe by simp_all
  have w': "3 * b = xe - xs + 1"
    using w by simp
  show ?thesis
    unfolding Let_def b_def [symmetric]
    by (intro conjI bays cover apart sizes w')
qed

theorem createAisle_horizontal_bays_partition_witness:
  "(5::int) - 0 + 1 > 0 - 0 + 1 \<and> 3 dvd ((5::int) - 0 + 1) \<and> 0 < (5::int) - 0 + 1
   \<and> bayCoordinates 0 5 0 0 = [[0, 1], [2, 3], [4, 5]]
   \<and> {0..1} \<union> {2..3} \<union> {4..5} = {0..5::int}
   \<and> {0..1} \<inter> {2..3} = ({}::int set)
   \<and> int (card {0..1::int}) = 2 \<and> int (card {2..3::int}) = 2 \<and> int (card {4..5::int}) = 2"
  using createAisle_horizontal_bays_partition [where xs = 0 and xe = 5 and ys = 0 and ye = 0]
  by (simp add: Let_def)

text \<open>
  The claim as written also covers calls whose width is a multiple of 3 that is not
  positive. With \<open>xStartVal = 5\<close>, \<open>xEndVal = 4\<close>, \<open>yStartVal = 5\<close>, \<open>yEndVal = 3\<close> the width
  is \<open>0\<close> and the length \<open>-1\<close>: the loop runs once, its first test holds at \<open>i = 0\<close>, and
  it computes the single range \<open>[5, 4]\<close>, not three ranges.
\<close>

theorem createAisle_zero_width_one_bay:
  "(4::int) - 5 + 1 > 3 - 5 + 1 \<and> 3 dvd ((4::int) - 5 + 1)
   \<and> bayCoordinates 5 4 5 3 = [[5, 4]]
   \<and> length (bayCoordinates 5 4 5 3) \<noteq> 3"
  by (simp add: bayCoordinates_def Let_def for_le.simps)

subsection \<open>What \<open>createAisle\<close> persists\<close>

lemma createAisle_wide:
  "xe - xs + 1 > ye - ys + 1 \<Longrightarrow> createAisle n nm xs xe ys ye db = (None, db)"
  by (simp add: createAisle_def Let_def)

lemma bayCoordinates_tall:
  "xe - xs + 1 \<le> ye - ys + 1 \<Longrightarrow> bayCoordinates xs xe ys ye = []"
  by (simp add: bayCoordinates_def Let_def)

text \<open>
  Claim C2 says that every call of \<open>createAisle\<close> persists an Aisle document and returns
  it. The call \<open>createAisle(1, "A", 0, 5, 0, 0)\<close> has width 6 and length 1: it leaves the
  store as it was and returns \<open>undefined\<close>.
\<close>

theorem createAisle_wide_not_persisted:
  "(5::int) - 0 + 1 > 0 - 0 + 1 \<and> createAisle 1 ''A'' 0 5 0 0 empty_db = (None, empty_db)"
  by (simp add: createAisle_def Let_def)

text \<open>
  Claim C3 says that a call with \<open>width \<le> length\<close> persists three bay zones along the
  y-axis. The call \<open>createAisle(1, "A", 0, 0, 0, 2)\<close> has width 1 and length 3: the
  document it persists has no bays, where the claim gives \<open>[0,0]\<close>, \<open>[1,1]\<close>, \<open>[2,2]\<close>.
\<close>

theorem createAisle_tall_has_no_bays:
  "(0::int) - 0 + 1 \<le> 2 - 0 + 1 \<and> 3 dvd ((2::int) - 0 + 1)
   \<and> (\<exists>doc db'. createAisle 1 ''A'' 0 0 0 2 empty_db = (Some doc, db')
         \<and> Aisles db' = [doc] \<and> bays doc = [] \<and> bays doc \<noteq> [[0, 0], [1, 1], [2, 2]])"
  by (simp add: createAisle_def bayCoordinates_def Let_def insert_Aisles_def empty_db_def)

subsection \<open>Enumerating the coordinates of a map\<close>

lemma for_lt_unbound: "for_lt x (Inl e) body s = Inl e"
  by (subst for_lt.simps) simp

lemma getAllMapCoords_no_globals:
  "getAllMapCoords no_globals i db =
     (if find (\<lambda>d. oid d = Some i) (Map db) = None then Inl (Error ''Map not found'')
      else Inl (ReferenceError ''width''))"
  by (simp add: getAllMapCoords_def no_globals_def ident_def for_lt_unbound)

text \<open>
  Where the global object does bind the two identifiers, the grid follows them and not
  the map: a map of width 2 and length 2 is enumerated as 1 by 3.
\<close>

lemma getAllMapCoords_reads_globals:
  "\<exists>doc db. createMap ''Main Store'' ''demo'' 2 2 empty_db = (Inr doc, db)
      \<and> getAllMapCoords \<lparr>global_width = Some 1, global_length = Some 3, global_newAisle = None\<rparr> 0 db
           = Inr [[0, 0], [0, 1], [0, 2]]"
  by (simp add: getAllMapCoords_def createMap_def insert_Map_def empty_db_def Let_def ident_def for_lt.simps)

text \<open>
  Claim C4 says that \<open>getAllMapCoords\<close> returns the grid of the map's own width and
  length. For the map that \<open>createMap("Main Store", "demo", 2, 2)\<close> stores in an empty
  database, the query finds the map and then throws on the unbound identifier \<open>width\<close>;
  it does not return \<open>[[0,0],[0,1],[1,0],[1,1]]\<close>.
\<close>

theorem getAllMapCoords_existing_map_throws:
  "\<exists>doc db. createMap ''Main Store'' ''demo'' 2 2 empty_db = (Inr doc, db)
      \<and> getMap 0 db = Some doc \<and> width doc = 2 \<and> map_length doc = 2
      \<and> getAllMapCoords no_globals 0 db = Inl (ReferenceError ''width'')
      \<and> getAllMapCoords no_globals 0 db \<noteq> Inr [[0, 0], [0, 1], [1, 0], [1, 1]]"
  by (simp add: getAllMapCoords_no_globals createMap_def getMap_def insert_Map_def empty_db_def Let_def)

subsection \<open>Validation in \<open>createMap\<close>\<close>

lemma forEach_checks:
  assumes "\<And>x. f x = (if \<not> ok x then Inl e else Inr ())"
  shows "forEach f xs = (if list_all ok xs then Inr () else Inl e)"
  by (induction xs) (auto simp: assms)

lemma validateRange_both_axes:
  "(validateRange (xStartVal r) (xEndVal r) 0 w \<and> validateRange (yStartVal r) (yEndVal r) 0 l)
     = within_map w l r"
  by (auto simp: validateRange_def within_map_def)

lemma createMap_checks:
  assumes "find (\<lambda>m. title m = t) (Map db) = None" and "0 < w" and "0 < l"
  shows "createMap t d w l db =
     (if \<not> list_all (within_map w l) (Aisles db) then
        (Inl (Error ''Aisle dimensions exceed map dimensions''), db)
      else if \<not> list_all (within_map w l) (Checkout db) then
        (Inl (Error ''Checkout lane dimensions exceed map dimensions''), db)
      else
        (let newMap = \<lparr>oid = None, title = t, description = d, width = w, map_length = l,
                 aisle = Aisles db, checkout = Checkout db\<rparr>;
             (doc, db') = insert_Map newMap db
         in (Inr doc, db')))"
proof -
  have a: "forEach (\<lambda>aisle.
              if \<not> (validateRange (xStartVal aisle) (xEndVal aisle) 0 w
                    \<and> validateRange (yStartVal aisle) (yEndVal aisle) 0 l)
              then Inl (Error ''Aisle dimensions exceed map dimensions'')
              else Inr ()) (Aisles db)
           = (if list_all (within_map w l) (Aisles db) then Inr ()
              else Inl (Error ''Aisle dimensions exceed map dimensions''))"
    by (rule forEach_checks) (simp add: validateRange_both_axes)
  have c: "forEach (\<lambda>cLane.
              if \<not> (validateRange (xStartVal cLane) (xEndVal cLane) 0 w
                    \<and> validateRange (yStartVal cLane) (yEndVal cLane) 0 l)
              then Inl (Error ''Checkout lane dimensions exceed map dimensions'')
              else Inr ()) (Checkout db)
           = (if list_all (within_map w l) (Checkout db) then Inr ()
              else Inl (Error ''Checkout lane dimensions exceed map dimensions''))"
    by (rule forEach_checks) (simp add: validateRange_both_axes)
  show ?thesis
    unfolding createMap_def Let_def a c using assms by simp
qed

lemma createMap_error_keeps_db:
  "fst (createMap t d w l db) = Inl e \<Longrightarrow> snd (createMap t d w l db) = db"
  by (auto simp: createMap_def Let_def insert_Map_def split: if_splits sum.splits)

lemma db_wide_aisle_eq:
  "db_wide_aisle = \<lparr>Item = [], Aisles = [\<lparr>oid = Some 0, xStartVal = 0, xEndVal = 10, yStartVal = 0,
      yEndVal = 20, number = 1, name = ''Dairy'', bays = []\<rparr>], Checkout = [], Map = [],
      Inventory = [], next_oid = 1\<rparr>"
  by (simp add: db_wide_aisle_def createAisle_def bayCoordinates_def insert_Aisles_def empty_db_def Let_def)

lemma db_wide_lane_eq:
  "db_wide_lane = \<lparr>Item = [], Aisles = [], Checkout = [\<lparr>oid = Some 0, xStartVal = 0, xEndVal = 10,
      yStartVal = 0, yEndVal = 5, lane = 1\<rparr>], Map = [], Inventory = [], next_oid = 1\<rparr>"
  by (simp add: db_wide_lane_def createCheckout_def insert_Checkout_def empty_db_def Let_def)

lemma db_wide_both_eq:
  "db_wide_both = \<lparr>Item = [], Aisles = [\<lparr>oid = Some 0, xStartVal = 0, xEndVal = 10, yStartVal = 0,
      yEndVal = 20, number = 1, name = ''Dairy'', bays = []\<rparr>],
      Checkout = [\<lparr>oid = Some 1, xStartVal = 0, xEndVal = 10, yStartVal = 0, yEndVal = 5, lane = 1\<rparr>],
      Map = [], Inventory = [], next_oid = 2\<rparr>"
  by (simp add: db_wide_both_def db_wide_aisle_eq createCheckout_def insert_Checkout_def Let_def)

lemma db_reversed_aisle_eq:
  "db_reversed_aisle = \<lparr>Item = [], Aisles = [\<lparr>oid = Some 0, xStartVal = 10, xEndVal = 3, yStartVal = 0,
      yEndVal = 2, number = 7, name = ''Bakery'', bays = []\<rparr>], Checkout = [], Map = [],
      Inventory = [], next_oid = 1\<rparr>"
  by (simp add: db_reversed_aisle_def createAisle_def bayCoordinates_def insert_Aisles_def empty_db_def Let_def)

text \<open>
  Claim C5. For a call of \<open>createMap\<close> with a title that no stored map has and
  positive dimensions, the checks run in the order of the source and the first
  violation aborts the call: if some stored aisle violates the range check, the call
  fails with "Aisle dimensions exceed map dimensions"; once the aisles have passed, if
  some stored checkout lane violates it, the call fails with "Checkout lane dimensions
  exceed map dimensions"; in both cases the store is returned as it was, and whenever
  the call fails the \<open>Map\<close> collection is unchanged.
\<close>

theorem createMap_bounds_rejected:
  assumes "find (\<lambda>m. title m = t) (Map db) = None" and "0 < w" and "0 < l"
  shows "((\<exists>a \<in> set (Aisles db). \<not> within_map w l a) \<longrightarrow>
            createMap t d w l db = (Inl (Error ''Aisle dimensions exceed map dimensions''), db))
       \<and> ((\<forall>a \<in> set (Aisles db). within_map w l a) \<and> (\<exists>c \<in> set (Checkout db). \<not> within_map w l c) \<longrightarrow>
            createMap t d w l db = (Inl (Error ''Checkout lane dimensions exceed map dimensions''), db))
       \<and> (\<forall>e. fst (createMap t d w l db) = Inl e \<longrightarrow> Map (snd (createMap t d w l db)) = Map db)"
proof (intro conjI impI allI)
  assume "\<exists>a \<in> set (Aisles db). \<not> within_map w l a"
  then have "\<not> list_all (within_map w l) (Aisles db)"
    by (simp add: list_all_iff)
  then show "createMap t d w l db = (Inl (Error ''Aisle dimensions exceed map dimensions''), db)"
    by (simp add: createMap_checks [OF assms])
next
  assume "(\<forall>a \<in> set (Aisles db). within_map w l a) \<and> (\<exists>c \<in> set (Checkout db). \<not> within_map w l c)"
  then have "list_all (within_map w l) (Aisles db)" "\<not> list_all (within_map w l) (Checkout db)"
    by (simp_all add: list_all_iff)
  then show "createMap t d w l db = (Inl (Error ''Checkout lane dimensions exceed map dimensions''), db)"
    by (simp add: createMap_checks [OF assms])
next
  fix e assume "fst (createMap t d w l db) = Inl e"
  then show "Map (snd (createMap t d w l db)) = Map db"
    by (simp add: createMap_error_keeps_db)
qed

theorem createMap_bounds_rejected_witness:
  "find (\<lambda>m. title m = ''Main Store'') (Map db_wide_aisle) = None
   \<and> find (\<lambda>m. title m = ''Main Store'') (Map db_wide_lane) = None
   \<and> (\<exists>a \<in> set (Aisles db_wide_aisle). \<not> within_map 5 5 a)
   \<and> createMap ''Main Store'' ''demo'' 5 5 db_wide_aisle
        = (Inl (Error ''Aisle dimensions exceed map dimensions''), db_wide_aisle)
   \<and> (\<exists>c \<in> set (Checkout db_wide_lane). \<not> within_map 5 5 c)
   \<and> createMap ''Main Store'' ''demo'' 5 5 db_wide_lane
        = (Inl (Error ''Checkout lane dimensions exceed map dimensions''), db_wide_lane)
   \<and> Map (snd (createMap ''Main Store'' ''demo'' 5 5 db_wide_lane)) = Map db_wide_lane"
  using createMap_bounds_rejected
      [where t = "''Main Store''" and d = "''demo''" and w = 5 and l = 5 and db = db_wide_aisle]
    createMap_bounds_rejected
      [where t = "''Main Store''" and d = "''demo''" and w = 5 and l = 5 and db = db_wide_lane]
  by (simp add: db_wide_aisle_eq db_wide_lane_eq within_map_def)

text \<open>
  The order of the two checks at a concrete store: with an aisle and a lane that both
  reach \<open>x = 10\<close> on a map of width 5, the aisle is met first and the call fails with
  the aisle message.
\<close>

lemma createMap_aisles_validated_first:
  "find (\<lambda>m. title m = ''Main Store'') (Map db_wide_both) = None
   \<and> (\<exists>c \<in> set (Checkout db_wide_both). \<not> within_map 5 5 c)
   \<and> createMap ''Main Store'' ''demo'' 5 5 db_wide_both
        = (Inl (Error ''Aisle dimensions exceed map dimensions''), db_wide_both)
   \<and> fst (createMap ''Main Store'' ''demo'' 5 5 db_wide_both)
        \<noteq> Inl (Error ''Checkout lane dimensions exceed map dimensions'')"
  by (simp add: db_wide_both_eq within_map_def createMap_def validateRange_def Let_def)

text \<open>
  Claim C6. The range check relates neither the start to the end nor the start to the
  map's dimension: the store holds an aisle with \<open>xStartVal = 10\<close> and \<open>xEndVal = 3\<close>
  (so \<open>xStartVal\<close> exceeds the width 5, \<open>xStartVal \<ge> 0\<close>, \<open>xEndVal \<le> 5\<close>, and the y-bounds
  \<open>0..2\<close> are valid), and \<open>createMap\<close> with width 5 and length 5 raises no error and
  stores a map that embeds this aisle.
\<close>

theorem createMap_accepts_reversed_aisle:
  "\<exists>a doc db'. a \<in> set (Aisles db_reversed_aisle)
      \<and> xStartVal a > 5 \<and> xStartVal a \<ge> 0 \<and> xEndVal a \<le> 5 \<and> \<not> xStartVal a \<le> xEndVal a
      \<and> yStartVal a \<ge> 0 \<and> yStartVal a \<le> yEndVal a \<and> yEndVal a \<le> 5
      \<and> validateRange (xStartVal a) (xEndVal a) 0 5
      \<and> createMap ''Main Store'' ''demo'' 5 5 db_reversed_aisle = (Inr doc, db')
      \<and> a \<in> set (aisle doc) \<and> Map db' = [doc]"
  by (simp add: db_reversed_aisle_eq createMap_def validateRange_def insert_Map_def Let_def)

subsection \<open>Inventories\<close>

lemma db_items_AB_eq:
  "db_items_AB = \<lparr>Item = [itemA\<lparr>oid := Some 0\<rparr>, itemB\<lparr>oid := Some 1\<rparr>], Aisles = [], Checkout = [],
     Map = [], Inventory = [], next_oid = 2\<rparr>"
  by (simp add: db_items_AB_def insert_Item_def empty_db_def Let_def)

lemma db_one_inventory_eq:
  "db_one_inventory = \<lparr>Item = [itemA\<lparr>oid := Some 0\<rparr>, itemB\<lparr>oid := Some 1\<rparr>], Aisles = [], Checkout = [],
     Map = [], Inventory = [\<lparr>oid = Some 2, inv_id = 1, inv_title = ''weekly'',
        items = [itemA\<lparr>oid := Some 0\<rparr>, itemB\<lparr>oid := Some 1\<rparr>]\<rparr>], next_oid = 3\<rparr>"
  by (simp add: db_one_inventory_def db_items_AB_eq createInventory_def insert_Inventory_def Let_def)

lemma oids_below_fresh:
  "oids_below n docs \<Longrightarrow> n \<le> k \<Longrightarrow> d\<lparr>oid := Some k\<rparr> \<notin> set docs"
  by (auto simp: oids_below_def list_all_iff split: option.splits)

lemma insert_Item_keeps_oids_below:
  "oids_below (next_oid db) (Item db) \<Longrightarrow>
     oids_below (next_oid (snd (insert_Item c db))) (Item (snd (insert_Item c db)))"
  by (auto simp: oids_below_def insert_Item_def Let_def list_all_iff split: option.splits)

lemma createInventory_keeps_oids_below:
  "oids_below (next_oid db) (Item db) \<Longrightarrow>
     oids_below (next_oid (snd (createInventory i t db))) (Item (snd (createInventory i t db)))"
  by (auto simp: oids_below_def createInventory_def insert_Inventory_def Let_def list_all_iff
        split: option.splits)

lemma find_append_last:
  "find P xs = None \<Longrightarrow> P x \<Longrightarrow> find P (xs @ [x]) = Some x"
  by (induction xs) (auto split: if_splits)

text \<open>
  Claim C7. \<open>createInventory(id, title)\<close> persists and returns an Inventory whose items
  are exactly the documents of the \<open>Item\<close> collection at that moment. Inserting another
  item afterwards extends the \<open>Item\<close> collection and leaves the stored Inventory as it
  was; the new item is not among the Inventory's items (its identifier is fresh), and
  \<open>getInventory(id)\<close> still returns the snapshot (when \<open>id\<close> was not in use before).
\<close>

theorem createInventory_snapshot:
  "let (doc, db1) = createInventory i t db;
       (saved, db2) = insert_Item c db1
   in items doc = Item db
    \<and> inv_id doc = i \<and> inv_title doc = t
    \<and> Inventory db1 = Inventory db @ [doc]
    \<and> Item db2 = Item db @ [saved]
    \<and> Inventory db2 = Inventory db @ [doc]
    \<and> (oids_below (next_oid db) (Item db) \<longrightarrow> saved \<notin> set (items doc))
    \<and> (find (\<lambda>v. inv_id v = i) (Inventory db) = None \<longrightarrow> getInventory i db2 = Inr (Item db))"
proof -
  have fresh: "c\<lparr>oid := Some (Suc (next_oid db))\<rparr> \<notin> set (Item db)"
    if "oids_below (next_oid db) (Item db)"
    using oids_below_fresh [OF that, of "Suc (next_oid db)" c] by simp
  show ?thesis
    by (simp add: createInventory_def insert_Inventory_def insert_Item_def getInventory_def Let_def
          fresh find_append_last)
qed

theorem createInventory_snapshot_witness:
  "let (doc, db1) = createInventory 1 ''weekly'' db_items_AB;
       (saved, db2) = insert_Item itemC db1
   in oids_below (next_oid db_items_AB) (Item db_items_AB)
    \<and> find (\<lambda>v. inv_id v = 1) (Inventory db_items_AB) = None
    \<and> items doc = [itemA\<lparr>oid := Some 0\<rparr>, itemB\<lparr>oid := Some 1\<rparr>]
    \<and> Item db2 = [itemA\<lparr>oid := Some 0\<rparr>, itemB\<lparr>oid := Some 1\<rparr>, saved]
    \<and> saved = itemC\<lparr>oid := Some 3\<rparr>
    \<and> saved \<notin> set (items doc)
    \<and> getInventory 1 db2 = Inr [itemA\<lparr>oid := Some 0\<rparr>, itemB\<lparr>oid := Some 1\<rparr>]"
  using createInventory_snapshot [where i = 1 and t = "''weekly''" and db = db_items_AB and c = itemC]
  by (simp add: db_items_AB_eq oids_below_def createInventory_def insert_Inventory_def insert_Item_def
        Let_def itemA_def itemB_def itemC_def)

text \<open>
  The two outcomes of \<open>getInventory\<close>: when no Inventory document has the given id,
  the unguarded read of \<open>items\<close> of \<open>null\<close> throws the engine's \<open>TypeError\<close>; when one
  has, the resolver returns the items embedded in the document that \<open>findOne\<close> yields.
\<close>

lemma getInventory_missing_or_items:
  "(\<not> (\<exists>v \<in> set (Inventory db). inv_id v = i) \<longrightarrow> getInventory i db = Inl (TypeError ''items''))
   \<and> ((\<exists>v \<in> set (Inventory db). inv_id v = i) \<longrightarrow>
        (\<exists>v \<in> set (Inventory db). inv_id v = i \<and> find (\<lambda>v. inv_id v = i) (Inventory db) = Some v
            \<and> getInventory i db = Inr (items v)))"
proof (intro conjI impI)
  assume "\<not> (\<exists>v \<in> set (Inventory db). inv_id v = i)"
  then have "find (\<lambda>v. inv_id v = i) (Inventory db) = None"
    by (simp add: find_None_iff)
  then show "getInventory i db = Inl (TypeError ''items'')"
    by (simp add: getInventory_def)
next
  assume "\<exists>v \<in> set (Inventory db). inv_id v = i"
  then obtain v where v: "find (\<lambda>v. inv_id v = i) (Inventory db) = Some v"
    by (cases "find (\<lambda>v. inv_id v = i) (Inventory db)") (auto simp: find_None_iff)
  then have "v \<in> set (Inventory db)" "inv_id v = i"
    by (auto simp: find_Some_iff)
  with v show "\<exists>v \<in> set (Inventory db). inv_id v = i \<and> find (\<lambda>v. inv_id v = i) (Inventory db) = Some v
      \<and> getInventory i db = Inr (items v)"
    by (auto simp: getInventory_def)
qed

lemma getInventory_missing_or_items_example:
  "\<not> (\<exists>v \<in> set (Inventory db_one_inventory). inv_id v = 2)
   \<and> getInventory 2 db_one_inventory = Inl (TypeError ''items'')
   \<and> (\<exists>v \<in> set (Inventory db_one_inventory). inv_id v = 1)
   \<and> getInventory 1 db_one_inventory = Inr [itemA\<lparr>oid := Some 0\<rparr>, itemB\<lparr>oid := Some 1\<rparr>]"
  using getInventory_missing_or_items [where i = 2 and db = db_one_inventory]
    getInventory_missing_or_items [where i = 1 and db = db_one_inventory]
  by (simp add: db_one_inventory_eq)

text \<open>
  No call of \<open>getInventory\<close> ends in an error that the resolver itself raises: the
  source has no \<open>throw\<close> in it.
\<close>

lemma getInventory_never_raises_Error: "getInventory i db \<noteq> Inl (Error m)"
  by (simp add: getInventory_def split: option.split)

text \<open>
  Claim C8 says that \<open>getInventory\<close> fails with a defined error when no Inventory has
  the given id. In the store that holds the one Inventory with id 1, \<open>getInventory(2)\<close>
  finds nothing and ends in the engine's \<open>TypeError\<close> for reading \<open>items\<close> of \<open>null\<close>,
  not in an error that the resolver raises with a message of its own; the sibling query
  \<open>getAllMapCoords\<close> guards the same situation and throws "Map not found".
\<close>

theorem getInventory_missing_id_throws_TypeError:
  "\<not> (\<exists>v \<in> set (Inventory db_one_inventory). inv_id v = 2)
   \<and> getInventory 2 db_one_inventory = Inl (TypeError ''items'')
   \<and> (\<forall>m. getInventory 2 db_one_inventory \<noteq> Inl (Error m))
   \<and> getAllMapCoords no_globals 2 db_one_inventory = Inl (Error ''Map not found'')"
  by (simp add: db_one_inventory_eq getInventory_def getAllMapCoords_def)

subsection \<open>Creating items\<close>

text \<open>
  Claim C9 says that \<open>createItem\<close> persists an Item built from its six arguments and
  returns it. The resolver throws on the unbound identifier \<open>newAisle\<close> and leaves the
  store as it was; whatever the global object binds, the \<open>Item\<close> collection is never
  changed.
\<close>

theorem createItem_persists_no_item:
  "createItem n a b p x y no_globals db = (Inl (ReferenceError ''newAisle''), db)
   \<and> Item (snd (createItem n a b p x y g db)) = Item db"
  by (simp add: createItem_def no_globals_def ident_def insert_Aisles_def Let_def split: option.split)

subsection \<open>The public identifier\<close>

text \<open>
  Claim C10, as amended. For the types Item, Aisle and StoreMap the public \<open>id\<close> is the
  store-assigned identifier when the document has one and the explicit \<open>id\<close> attribute
  otherwise. Inventory has no such resolver: its public \<open>id\<close> is the \<open>id\<close> attribute
  that the caller supplied, also when the store-assigned identifier is present.
\<close>

theorem public_id_shaping:
  "public_id TItem (Some k) v = Some (OID k) \<and> public_id TItem None v = v
   \<and> public_id TAisle (Some k) v = Some (OID k) \<and> public_id TAisle None v = v
   \<and> public_id TStoreMap (Some k) v = Some (OID k) \<and> public_id TStoreMap None v = v
   \<and> id_resolver TInventory = None \<and> public_id TInventory q v = v
   \<and> public_id_of_Inventory doc = Some (IntId (inv_id doc))"
  by (simp add: public_id_def id_resolver_def shape_id_def public_id_of_Inventory_def)

text \<open>
  The claim as written extends the shaping to Inventory. The Inventory that
  \<open>createInventory(1, "weekly")\<close> stores in an empty database has the store-assigned
  identifier 0, and its public \<open>id\<close> is the caller's 1.
\<close>

theorem inventory_public_id_is_caller_id:
  "\<exists>doc db. createInventory 1 ''weekly'' empty_db = (doc, db)
     \<and> oid doc = Some 0
     \<and> public_id_of_Inventory doc = Some (IntId 1)
     \<and> public_id_of_Inventory doc \<noteq> Some (OID 0)"
  by (simp add: public_id_def id_resolver_def public_id_of_Inventory_def createInventory_def
       insert_Inventory_def empty_db_def Let_def)

end
